theory Spec2Isabelle
  imports Main "HOL-Library.Word" "HOL-Library.Sublist"
begin

section \<open>JavaScript strings, values and outcomes\<close>

text \<open>
  A JavaScript string is a sequence of UTF-16 code units; \<open>trim\<close>, \<open>includes\<close> and the
  regular expressions of the sources (none has the \<open>u\<close> flag) all work on code units.
  Program text and messages that are never inspected stay HOL strings.
\<close>

type_synonym code_unit = "16 word"
type_synonym jsstring = "code_unit list"

definition ascii :: "string \<Rightarrow> jsstring" where
  "ascii s = map (\<lambda>c. of_nat (of_char c)) s"

definition nl :: jsstring where
  "nl = [0x0A]"

text \<open>
  The values a caller can pass where the sources expect a string. The numeric value of a
  number never matters below beyond its truthiness (NaN behaves as \<open>JNumber 0\<close> there).
\<close>

datatype js_value =
  JUndefined | JNull | JBoolean bool | JNumber int | JString jsstring | JObject

fun to_boolean :: "js_value \<Rightarrow> bool" where
  "to_boolean JUndefined = False"
| "to_boolean JNull = False"
| "to_boolean (JBoolean b) = b"
| "to_boolean (JNumber n) = (n \<noteq> 0)"
| "to_boolean (JString s) = (s \<noteq> [])"
| "to_boolean JObject = True"

fun typeof :: "js_value \<Rightarrow> string" where
  "typeof JUndefined = ''undefined''"
| "typeof JNull = ''object''"
| "typeof (JBoolean b) = ''boolean''"
| "typeof (JNumber n) = ''number''"
| "typeof (JString s) = ''string''"
| "typeof JObject = ''object''"

text \<open>A thrown \<open>Error\<close> with its message. A call either throws (\<open>Inl\<close>) or returns
  (\<open>Inr\<close>); an \<open>async\<close> function's promise either rejects (\<open>Inl\<close>) or resolves (\<open>Inr\<close>).\<close>

datatype js_error = Error string

fun message :: "js_error \<Rightarrow> string" where
  "message (Error m) = m"

text \<open>\<open>String.prototype.trim\<close>: strips WhiteSpace and LineTerminator code points from both
  ends (TAB, LF, VT, FF, CR, SP, NBSP, U+1680, U+2000..U+200A, U+2028, U+2029, U+202F,
  U+205F, U+3000, U+FEFF).\<close>

definition is_whitespace :: "code_unit \<Rightarrow> bool" where
  "is_whitespace c =
     ((0x0009 \<le> c \<and> c \<le> 0x000D) \<or> c = 0x0020 \<or> c = 0x00A0 \<or> c = 0x1680 \<or>
      (0x2000 \<le> c \<and> c \<le> 0x200A) \<or> c = 0x2028 \<or> c = 0x2029 \<or> c = 0x202F \<or>
      c = 0x205F \<or> c = 0x3000 \<or> c = 0xFEFF)"

definition trim :: "jsstring \<Rightarrow> jsstring" where
  "trim s = rev (dropWhile is_whitespace (rev (dropWhile is_whitespace s)))"

section \<open>The trace of effects\<close>

text \<open>
  The sources call collaborators that are not part of the repository (the Turndown
  engine, Prettier, the clipboard, the page). Every such call is an event of a trace; the
  collaborators' outcomes are parameters of the model.
\<close>

record prettier_options =
  parser :: string
  plugins :: "string list"
  proseWrap :: string
  tabWidth :: nat
  useTabs :: bool
  printWidth :: nat

datatype event =
    TurndownCall jsstring
  | PrettierFormat jsstring prettier_options
  | ConsoleError string
  | ShowToast string string
  | SetProcessingState bool
  | SetMarkdownOutputValue jsstring
  | UpdateStatus string string
  | ClipboardWriteText jsstring
  | CreateTextarea
  | AppendTextarea jsstring
  | SelectTextarea
  | ExecCommandCopy
  | RemoveTextarea

type_synonym 'a outcome = "event list \<times> (js_error + 'a)"

section \<open>formatter.js\<close>

definition DEFAULT_PRETTIER_OPTIONS :: prettier_options where
  "DEFAULT_PRETTIER_OPTIONS =
     \<lparr> parser = ''markdown'', plugins = [''markdownParser''], proseWrap = ''preserve'',
       tabWidth = 2, useTabs = False, printWidth = 80 \<rparr>"

text \<open>The \<open>options\<close> argument of \<open>formatMarkdown\<close>: an object that may set any of the keys.\<close>

record option_overrides =
  set_parser :: "string option"
  set_plugins :: "string list option"
  set_proseWrap :: "string option"
  set_tabWidth :: "nat option"
  set_useTabs :: "bool option"
  set_printWidth :: "nat option"

definition no_overrides :: option_overrides where
  "no_overrides =
     \<lparr> set_parser = None, set_plugins = None, set_proseWrap = None, set_tabWidth = None,
       set_useTabs = None, set_printWidth = None \<rparr>"

text \<open>\<open>{ ...DEFAULT_PRETTIER_OPTIONS, ...options }\<close>: a key of \<open>options\<close> wins.\<close>

definition merge_options :: "prettier_options \<Rightarrow> option_overrides \<Rightarrow> prettier_options" where
  "merge_options d ov =
     \<lparr> parser = (case set_parser ov of Some v \<Rightarrow> v | None \<Rightarrow> parser d),
       plugins = (case set_plugins ov of Some v \<Rightarrow> v | None \<Rightarrow> plugins d),
       proseWrap = (case set_proseWrap ov of Some v \<Rightarrow> v | None \<Rightarrow> proseWrap d),
       tabWidth = (case set_tabWidth ov of Some v \<Rightarrow> v | None \<Rightarrow> tabWidth d),
       useTabs = (case set_useTabs ov of Some v \<Rightarrow> v | None \<Rightarrow> useTabs d),
       printWidth = (case set_printWidth ov of Some v \<Rightarrow> v | None \<Rightarrow> printWidth d) \<rparr>"

text \<open>\<open>prettier.format\<close>: throws or rejects (\<open>Inl\<close>), or resolves with the formatted text.\<close>

type_synonym prettier = "jsstring \<Rightarrow> prettier_options \<Rightarrow> js_error + jsstring"

definition invalid_markdown :: js_error where
  "invalid_markdown = Error ''Invalid markdown input: expected a non-empty string''"

text \<open>
  \<^verbatim>\<open>
  export async function formatMarkdown(markdown, options = {}) {
    if (!markdown || typeof markdown !== "string") {
      throw new Error("Invalid markdown input: expected a non-empty string");
    }
    const mergedOptions = { ...DEFAULT_PRETTIER_OPTIONS, ...options };
    try {
      const formatted = await prettier.format(markdown, mergedOptions);
      return formatted;
    } catch (error) {
      console.error("Prettier formatting failed:", error);
      return markdown;
    }
  }
  \<close>
  The last case of the model is unreachable: past the guard the value is a string.
\<close>

definition formatMarkdown ::
  "prettier \<Rightarrow> js_value \<Rightarrow> option_overrides \<Rightarrow> jsstring outcome" where
  "formatMarkdown pf markdown options =
     (if \<not> to_boolean markdown \<or> typeof markdown \<noteq> ''string'' then ([], Inl invalid_markdown)
      else case markdown of
        JString md \<Rightarrow>
          (let mergedOptions = merge_options DEFAULT_PRETTIER_OPTIONS options in
           case pf md mergedOptions of
             Inr formatted \<Rightarrow> ([PrettierFormat md mergedOptions], Inr formatted)
           | Inl error \<Rightarrow>
               ([PrettierFormat md mergedOptions, ConsoleError ''Prettier formatting failed:''],
                Inr md))
      | _ \<Rightarrow> ([], Inl invalid_markdown))"

section \<open>The document tree\<close>

text \<open>
  The tree the HTML parser hands to the rules: text, comments, and elements with their
  local name (lower case, as the parser of an HTML document produces it), attributes and
  children in document order.
\<close>

datatype dom_node =
    Text jsstring
  | Comment jsstring
  | Element string "(string \<times> jsstring) list" "dom_node list"

text \<open>ASCII upper case: bit 5 of a lower-case letter cleared.\<close>

definition upcase :: "char \<Rightarrow> char" where
  "upcase c =
     (if 97 \<le> (of_char c :: nat) \<and> (of_char c :: nat) \<le> 122
      then Char (digit0 c) (digit1 c) (digit2 c) (digit3 c) (digit4 c) False (digit6 c) (digit7 c)
      else c)"

fun nodeName :: "dom_node \<Rightarrow> string" where
  "nodeName (Text s) = ''#text''"
| "nodeName (Comment s) = ''#comment''"
| "nodeName (Element name attrs kids) = map upcase name"

text \<open>\<open>className\<close>: the value of the \<open>class\<close> attribute, the empty string when there is
  none. Nodes that are not elements have no \<open>className\<close>; \<open>undefined || ""\<close> is \<open>""\<close>.\<close>

fun className :: "dom_node \<Rightarrow> jsstring" where
  "className (Element name attrs kids) =
     (case map_of attrs ''class'' of Some v \<Rightarrow> v | None \<Rightarrow> [])"
| "className (Text s) = []"
| "className (Comment s) = []"

text \<open>The text of the descendants in document order; comments contribute nothing to
  their ancestors' \<open>textContent\<close>.\<close>

fun descendant_text :: "dom_node \<Rightarrow> jsstring" where
  "descendant_text (Element name attrs kids) = concat (map descendant_text kids)"
| "descendant_text (Text s) = s"
| "descendant_text (Comment s) = []"

fun textContent :: "dom_node \<Rightarrow> jsstring" where
  "textContent (Comment s) = s"
| "textContent node = descendant_text node"

fun descendants :: "dom_node \<Rightarrow> dom_node list" where
  "descendants (Element name attrs kids) = concat (map (\<lambda>k. k # descendants k) kids)"
| "descendants (Text s) = []"
| "descendants (Comment s) = []"

fun has_local_name :: "string \<Rightarrow> dom_node \<Rightarrow> bool" where
  "has_local_name sel (Element name attrs kids) = (name = sel)"
| "has_local_name sel (Text s) = False"
| "has_local_name sel (Comment s) = False"

text \<open>\<open>node.querySelector(sel)\<close> for a type selector: the first descendant element, in
  document order, with that name; \<open>null\<close> (\<open>None\<close>) when there is none.\<close>

definition querySelector :: "string \<Rightarrow> dom_node \<Rightarrow> dom_node option" where
  "querySelector sel node = find (has_local_name sel) (descendants node)"

section \<open>converter.js\<close>

record turndown_options =
  headingStyle :: string
  hr :: jsstring
  bulletListMarker :: jsstring
  codeBlockStyle :: string
  fence :: jsstring
  emDelimiter :: jsstring
  strongDelimiter :: jsstring
  linkStyle :: string
  linkReferenceStyle :: string

definition configured_options :: turndown_options where
  "configured_options =
     \<lparr> headingStyle = ''atx'', hr = ascii ''---'', bulletListMarker = ascii ''-'',
       codeBlockStyle = ''fenced'', fence = ascii ''```'', emDelimiter = ascii ''_'',
       strongDelimiter = ascii ''**'', linkStyle = ''inlined'', linkReferenceStyle = ''full'' \<rparr>"

subsection \<open>extractLanguageFromCode\<close>

text \<open>\<open>\w\<close> without the \<open>i\<close> and \<open>u\<close> flags: \<open>[A-Za-z0-9_]\<close>.\<close>

definition is_word_char :: "code_unit \<Rightarrow> bool" where
  "is_word_char c =
     ((0x41 \<le> c \<and> c \<le> 0x5A) \<or> (0x61 \<le> c \<and> c \<le> 0x7A) \<or> (0x30 \<le> c \<and> c \<le> 0x39) \<or> c = 0x5F)"

text \<open>One alternative of \<open>(?:language-|lang-)(\w+)\<close> tried at the start of \<open>s\<close>: the
  literal, then the longest non-empty run of word characters, which is the capture.\<close>

definition capture_after :: "jsstring \<Rightarrow> jsstring \<Rightarrow> jsstring option" where
  "capture_after lit s =
     (if prefix lit s \<and> takeWhile is_word_char (drop (length lit) s) \<noteq> []
      then Some (takeWhile is_word_char (drop (length lit) s)) else None)"

text \<open>The whole pattern tried at the start of \<open>s\<close>: the alternatives in their order.\<close>

definition capture_at :: "jsstring \<Rightarrow> jsstring option" where
  "capture_at s =
     (case capture_after (ascii ''language-'') s of
        Some w \<Rightarrow> Some w
      | None \<Rightarrow> capture_after (ascii ''lang-'') s)"

text \<open>\<open>className.match(/(?:language-|lang-)(\w+)/)\<close>: the match at the leftmost position
  that has one; the result is capture 1 of that match, \<open>None\<close> for \<open>null\<close>.\<close>

fun language_match :: "jsstring \<Rightarrow> jsstring option" where
  "language_match [] = capture_at []"
| "language_match (c # cs) =
     (case capture_at (c # cs) of Some w \<Rightarrow> Some w | None \<Rightarrow> language_match cs)"

text \<open>
  \<^verbatim>\<open>
  function extractLanguageFromCode(node) {
    const codeElement = node.querySelector("code") || node;
    const className = codeElement.className || "";
    const languageMatch = className.match(/(?:language-|lang-)(\w+)/);
    if (languageMatch) { return languageMatch[1]; }
    return "";
  }
  \<close>
\<close>

definition extractLanguageFromCode :: "dom_node \<Rightarrow> jsstring" where
  "extractLanguageFromCode node =
     (let codeElement = (case querySelector ''code'' node of Some c \<Rightarrow> c | None \<Rightarrow> node) in
      case language_match (className codeElement) of
        Some lang \<Rightarrow> lang
      | None \<Rightarrow> [])"

subsection \<open>The rules registered by createTurndownService\<close>

text \<open>
  \<^verbatim>\<open>
  turndownService.addRule("preserveCodeBlocks", {
    filter: ["pre"],
    replacement: function (content, node) {
      const codeElement = node.querySelector("code");
      const codeContent = codeElement ? codeElement.textContent : node.textContent;
      const language = extractLanguageFromCode(node);
      return `\n\`\`\`${language}\n${codeContent.trim()}\n\`\`\`\n`;
    },
  });
  \<close>
\<close>

definition preserveCodeBlocks_filter :: "dom_node \<Rightarrow> bool" where
  "preserveCodeBlocks_filter node = (nodeName node = ''PRE'')"

definition preserveCodeBlocks_replacement :: "jsstring \<Rightarrow> dom_node \<Rightarrow> jsstring" where
  "preserveCodeBlocks_replacement content node =
     (let codeElement = querySelector ''code'' node;
          codeContent = (case codeElement of Some c \<Rightarrow> textContent c | None \<Rightarrow> textContent node);
          language = extractLanguageFromCode node
      in nl @ ascii ''```'' @ language @ nl @ trim codeContent @ nl @ ascii ''```'' @ nl)"

text \<open>
  \<^verbatim>\<open>
  turndownService.addRule("inlineCode", {
    filter: function (node) {
      return node.nodeName === "CODE" && node.parentNode.nodeName !== "PRE";
    },
    replacement: function (content) {
      if (!content.trim()) return "";
      if (content.includes("`")) { return "`` " + content + " ``"; }
      return "`" + content + "`";
    },
  });
  \<close>
  The tree has no parent pointers: the filter takes the parent node as an argument.
\<close>

definition inlineCode_filter :: "dom_node \<Rightarrow> dom_node \<Rightarrow> bool" where
  "inlineCode_filter parentNode node = (nodeName node = ''CODE'' \<and> nodeName parentNode \<noteq> ''PRE'')"

definition inlineCode_replacement :: "jsstring \<Rightarrow> jsstring" where
  "inlineCode_replacement content =
     (if trim content = [] then []
      else if 0x60 \<in> set content then ascii ''`` '' @ content @ ascii '' ``''
      else ascii ''`'' @ content @ ascii ''`'')"

text \<open>\<open>turndownService.remove(["script", "style", "noscript"])\<close>.\<close>

definition removed_tags :: "string list" where
  "removed_tags = [''script'', ''style'', ''noscript'']"

subsection \<open>The engine's choice of rule for a pre element\<close>

text \<open>
  The Turndown engine is a library outside the repository; the rule above is called by
  it. What the engine does before it calls a rule is taken from the library (turndown 7,
  \<open>Rules.forNode\<close> and \<open>Node.isBlank\<close>):
  \<^verbatim>\<open>
  function isBlank (node) {
    return (
      !isVoid(node) && !isMeaningfulWhenBlank(node) &&
      /^\s*$/i.test(node.textContent) &&
      !hasVoid(node) && !hasMeaningfulWhenBlank(node)
    )
  }
  forNode: function (node) {
    if (node.isBlank) return this.blankRule
    var rule
    if ((rule = findRule(this.array, node, this.options))) return rule
    ...
  }
  blankRule = { replacement: function (content, node) { return node.isBlock ? '\n\n' : '' } }
  \<close>
  Rules given to \<open>addRule\<close> stand at the front of \<open>this.array\<close>, the later one first. For a
  \<open>pre\<close> element the filter of \<open>inlineCode\<close> fails on the name and \<open>preserveCodeBlocks\<close> is
  the rule found. A \<open>pre\<close> element is a block element: the engine adds no flanking
  whitespace to its replacement, and the blank rule yields two newlines, which the
  engine's final trim removes where nothing else is emitted.
\<close>

definition voidElements :: "string list" where
  "voidElements =
     [''AREA'', ''BASE'', ''BR'', ''COL'', ''COMMAND'', ''EMBED'', ''HR'', ''IMG'', ''INPUT'',
      ''KEYGEN'', ''LINK'', ''META'', ''PARAM'', ''SOURCE'', ''TRACK'', ''WBR'']"

definition meaningfulWhenBlankElements :: "string list" where
  "meaningfulWhenBlankElements =
     [''A'', ''TABLE'', ''THEAD'', ''TBODY'', ''TFOOT'', ''TH'', ''TD'', ''IFRAME'', ''SCRIPT'',
      ''AUDIO'', ''VIDEO'']"

text \<open>\<open>\s\<close> is the set of code units that \<open>trim\<close> strips.\<close>

definition isBlank :: "dom_node \<Rightarrow> bool" where
  "isBlank node =
     (nodeName node \<notin> set voidElements \<and>
      nodeName node \<notin> set meaningfulWhenBlankElements \<and>
      list_all is_whitespace (textContent node) \<and>
      \<not> list_ex (\<lambda>d. nodeName d \<in> set voidElements) (descendants node) \<and>
      \<not> list_ex (\<lambda>d. nodeName d \<in> set meaningfulWhenBlankElements) (descendants node))"

text \<open>What the engine puts in the place of a \<open>pre\<close> element whose children were
  converted to \<open>content\<close>.\<close>

definition replacement_for_pre :: "jsstring \<Rightarrow> dom_node \<Rightarrow> jsstring" where
  "replacement_for_pre content node =
     (if isBlank node then nl @ nl else preserveCodeBlocks_replacement content node)"

text \<open>Whether a descendant of the node is one of the elements given to
  \<open>turndownService.remove\<close>.\<close>

definition has_removed_descendant :: "dom_node \<Rightarrow> bool" where
  "has_removed_descendant node =
     list_ex (\<lambda>d. list_ex (\<lambda>t. has_local_name t d) removed_tags) (descendants node)"

subsection \<open>convertHtmlToMarkdown and isValidHtml\<close>

text \<open>\<open>turndownService.turndown\<close>: the engine's tree walk over the parsed input. It throws
  (\<open>Inl\<close>) or returns the raw Markdown.\<close>

type_synonym turndown = "jsstring \<Rightarrow> js_error + jsstring"

definition invalid_html :: js_error where
  "invalid_html = Error ''Invalid HTML input: expected a non-empty string''"

text \<open>
  \<^verbatim>\<open>
  export function convertHtmlToMarkdown(html) {
    if (!html || typeof html !== "string") {
      throw new Error("Invalid HTML input: expected a non-empty string");
    }
    return turndownService.turndown(html);
  }
  \<close>
  The last case of the model is unreachable: past the guard the value is a string.
\<close>

definition convertHtmlToMarkdown :: "turndown \<Rightarrow> js_value \<Rightarrow> jsstring outcome" where
  "convertHtmlToMarkdown td html =
     (if \<not> to_boolean html \<or> typeof html \<noteq> ''string'' then ([], Inl invalid_html)
      else case html of
        JString h \<Rightarrow> ([TurndownCall h], td h)
      | _ \<Rightarrow> ([], Inl invalid_html))"

text \<open>\<open>[a-z]\<close> under the \<open>i\<close> flag (no \<open>u\<close> flag): the ASCII letters of both cases; the
  canonicalisation of a code unit above 127 never yields an ASCII letter.\<close>

definition is_ascii_letter :: "code_unit \<Rightarrow> bool" where
  "is_ascii_letter c = ((0x41 \<le> c \<and> c \<le> 0x5A) \<or> (0x61 \<le> c \<and> c \<le> 0x7A))"

text \<open>\<open>[a-z][\s\S]*>\<close> at the start of \<open>s\<close>: a letter, anything, and a later \<open>>\<close>.\<close>

definition name_and_close :: "jsstring \<Rightarrow> bool" where
  "name_and_close s = (case s of [] \<Rightarrow> False | c # t \<Rightarrow> is_ascii_letter c \<and> 0x3E \<in> set t)"

text \<open>\<open><\/?[a-z][\s\S]*>\<close> at the start of \<open>s\<close>: after \<open><\<close>, first with the optional
  slash taken, then without it.\<close>

definition tag_at :: "jsstring \<Rightarrow> bool" where
  "tag_at s =
     (case s of
        [] \<Rightarrow> False
      | c # r \<Rightarrow>
          c = 0x3C \<and>
          ((case r of [] \<Rightarrow> False | d # r' \<Rightarrow> d = 0x2F \<and> name_and_close r') \<or> name_and_close r))"

text \<open>\<open>htmlTagPattern.test(str)\<close>: a match at some position.\<close>

fun htmlTagPattern_test :: "jsstring \<Rightarrow> bool" where
  "htmlTagPattern_test [] = tag_at []"
| "htmlTagPattern_test (c # cs) = (tag_at (c # cs) \<or> htmlTagPattern_test cs)"

text \<open>
  \<^verbatim>\<open>
  export function isValidHtml(str) {
    if (!str || typeof str !== "string") { return false; }
    const htmlTagPattern = /<\/?[a-z][\s\S]*>/i;
    return htmlTagPattern.test(str);
  }
  \<close>
\<close>

definition isValidHtml :: "js_value \<Rightarrow> bool" where
  "isValidHtml str =
     (if \<not> to_boolean str \<or> typeof str \<noteq> ''string'' then False
      else case str of JString s \<Rightarrow> htmlTagPattern_test s | _ \<Rightarrow> False)"

section \<open>main.js\<close>

text \<open>
  \<^verbatim>\<open>
  async function processHtmlToMarkdown(html) {
    const rawMarkdown = convertHtmlToMarkdown(html);
    const formattedMarkdown = await formatMarkdown(rawMarkdown);
    return formattedMarkdown;
  }
  \<close>
\<close>

definition processHtmlToMarkdown :: "turndown \<Rightarrow> prettier \<Rightarrow> js_value \<Rightarrow> jsstring outcome" where
  "processHtmlToMarkdown td pf html =
     (case convertHtmlToMarkdown td html of
        (ev1, Inl e) \<Rightarrow> (ev1, Inl e)
      | (ev1, Inr rawMarkdown) \<Rightarrow>
          (case formatMarkdown pf (JString rawMarkdown) no_overrides of
             (ev2, r) \<Rightarrow> (ev1 @ ev2, r)))"

text \<open>
  \<^verbatim>\<open>
  async function handleConversion(html) {
    if (!html || !html.trim()) {
      showToast("No HTML content to convert", "error"); return;
    }
    if (!isValidHtml(html)) {
      showToast("Input does not appear to contain valid HTML", "error"); return;
    }
    setProcessingState(true);
    try {
      const markdown = await processHtmlToMarkdown(html);
      setMarkdownOutputValue(markdown);
      updateStatus("Converted successfully", "success");
      showToast("HTML converted to Markdown!", "success");
    } catch (error) {
      console.error("Conversion error:", error);
      updateStatus("Conversion failed", "error");
      showToast(`Error: ${error.message}`, "error");
    } finally {
      setProcessingState(false);
    }
  }
  \<close>
  Its callers pass the value of the input field or the clipboard's text: a string.
\<close>

definition handleConversion :: "turndown \<Rightarrow> prettier \<Rightarrow> jsstring \<Rightarrow> event list" where
  "handleConversion td pf html =
     (if html = [] \<or> trim html = [] then
        [ShowToast ''No HTML content to convert'' ''error'']
      else if \<not> isValidHtml (JString html) then
        [ShowToast ''Input does not appear to contain valid HTML'' ''error'']
      else
        [SetProcessingState True] @
        (case processHtmlToMarkdown td pf (JString html) of
           (ev, Inr markdown) \<Rightarrow>
             ev @ [SetMarkdownOutputValue markdown,
                   UpdateStatus ''Converted successfully'' ''success'',
                   ShowToast ''HTML converted to Markdown!'' ''success'']
         | (ev, Inl error) \<Rightarrow>
             ev @ [ConsoleError ''Conversion error:'',
                   UpdateStatus ''Conversion failed'' ''error'',
                   ShowToast (''Error: '' @ message error) ''error'']) @
        [SetProcessingState False])"

section \<open>clipboard.js\<close>

text \<open>What the page answers to each call \<open>copyToClipboard\<close> makes: \<open>Some e\<close> when the call
  throws (or its promise rejects), \<open>None\<close> when it returns. \<open>navigator.clipboard\<close> being
  absent is a \<open>TypeError\<close> thrown by the first call.\<close>

record browser =
  clipboard_writeText :: "jsstring \<Rightarrow> js_error option"
  createElement_textarea :: "js_error option"
  body_appendChild :: "js_error option"
  textarea_select :: "js_error option"
  execCommand_copy :: "js_error + bool"
  body_removeChild :: "js_error option"

text \<open>The body of the inner \<open>try\<close>: the calls in order, up to the first that throws.\<close>

definition fallback_copy :: "browser \<Rightarrow> jsstring \<Rightarrow> unit outcome" where
  "fallback_copy b text =
     (case createElement_textarea b of
        Some e \<Rightarrow> ([CreateTextarea], Inl e)
      | None \<Rightarrow>
     (case body_appendChild b of
        Some e \<Rightarrow> ([CreateTextarea, AppendTextarea text], Inl e)
      | None \<Rightarrow>
     (case textarea_select b of
        Some e \<Rightarrow> ([CreateTextarea, AppendTextarea text, SelectTextarea], Inl e)
      | None \<Rightarrow>
     (case execCommand_copy b of
        Inl e \<Rightarrow> ([CreateTextarea, AppendTextarea text, SelectTextarea, ExecCommandCopy], Inl e)
      | Inr copied \<Rightarrow>
     (case body_removeChild b of
        Some e \<Rightarrow>
          ([CreateTextarea, AppendTextarea text, SelectTextarea, ExecCommandCopy,
            RemoveTextarea], Inl e)
      | None \<Rightarrow>
          ([CreateTextarea, AppendTextarea text, SelectTextarea, ExecCommandCopy,
            RemoveTextarea], Inr ()))))))"

text \<open>
  \<^verbatim>\<open>
  export async function copyToClipboard(text) {
    try {
      await navigator.clipboard.writeText(text);
      return true;
    } catch (error) {
      console.error("Failed to copy to clipboard:", error);
      try {
        const textarea = document.createElement("textarea");
        textarea.value = text;
        textarea.style.position = "fixed";
        textarea.style.opacity = "0";
        document.body.appendChild(textarea);
        textarea.select();
        document.execCommand("copy");
        document.body.removeChild(textarea);
        return true;
      } catch (fallbackError) {
        console.error("Fallback copy failed:", fallbackError);
        return false;
      }
    }
  }
  \<close>
\<close>

definition copyToClipboard :: "browser \<Rightarrow> jsstring \<Rightarrow> bool outcome" where
  "copyToClipboard b text =
     (case clipboard_writeText b text of
        None \<Rightarrow> ([ClipboardWriteText text], Inr True)
      | Some error \<Rightarrow>
          (case fallback_copy b text of
             (ev, Inr u) \<Rightarrow>
               ([ClipboardWriteText text, ConsoleError ''Failed to copy to clipboard:''] @ ev,
                Inr True)
           | (ev, Inl fallbackError) \<Rightarrow>
               ([ClipboardWriteText text, ConsoleError ''Failed to copy to clipboard:''] @ ev @
                [ConsoleError ''Fallback copy failed:''],
                Inr False)))"

section \<open>Sample collaborators\<close>

text \<open>A formatter that fails on every input, as when the Markdown plugin cannot parse.\<close>

definition prettier_failing :: prettier where
  "prettier_failing md opts = Inl (Error ''SyntaxError'')"

text \<open>
  The outcomes of the two libraries, tabulated on the inputs of the examples below.
  Turndown returns text without markup as it is, the content of a paragraph without the
  surrounding blank lines, and the empty string when every element of the input is
  removed. Prettier prints a document with no content as the empty string and a paragraph
  with a final newline, and returns its own output unchanged. Inputs outside the tables
  are reported as failures.
\<close>

definition turndown_sample :: turndown where
  "turndown_sample html =
     (if html = ascii ''not html at all'' then Inr (ascii ''not html at all'')
      else if html = ascii ''<p>Hello</p>'' then Inr (ascii ''Hello'')
      else if html = ascii ''<script>alert(1)</script>'' then Inr []
      else Inl (Error ''not tabulated''))"

definition prettier_sample :: prettier where
  "prettier_sample md opts =
     (if md = [] then Inr []
      else if md = nl then Inr []
      else if md = ascii ''Hello'' then Inr (ascii ''Hello'' @ nl)
      else if md = ascii ''Hello'' @ nl then Inr (ascii ''Hello'' @ nl)
      else if md = ascii ''not html at all'' then Inr (ascii ''not html at all'' @ nl)
      else if md = ascii ''not html at all'' @ nl then Inr (ascii ''not html at all'' @ nl)
      else Inl (Error ''not tabulated''))"

text \<open>Pages for \<open>copyToClipboard\<close>: one without the Clipboard API where \<open>execCommand\<close>
  works, and one where the page has no body to append to either.\<close>

definition legacy_browser :: browser where
  "legacy_browser =
     \<lparr> clipboard_writeText = (\<lambda>t. Some (Error ''navigator.clipboard is undefined'')),
       createElement_textarea = None, body_appendChild = None, textarea_select = None,
       execCommand_copy = Inr True, body_removeChild = None \<rparr>"

definition broken_browser :: browser where
  "broken_browser =
     \<lparr> clipboard_writeText = (\<lambda>t. Some (Error ''navigator.clipboard is undefined'')),
       createElement_textarea = None,
       body_appendChild = Some (Error ''document.body is null''),
       textarea_select = None, execCommand_copy = Inr False, body_removeChild = None \<rparr>"

section \<open>Properties of formatMarkdown\<close>

lemma formatMarkdown_string:
  "md \<noteq> [] \<Longrightarrow>
   snd (formatMarkdown pf (JString md) ov) =
     (case pf md (merge_options DEFAULT_PRETTIER_OPTIONS ov) of
        Inr formatted \<Rightarrow> Inr formatted | Inl error \<Rightarrow> Inr md)"
  by (simp add: formatMarkdown_def Let_def split: sum.splits)

lemma formatMarkdown_empty:
  "formatMarkdown pf (JString []) ov = ([], Inl invalid_markdown)"
  by (simp add: formatMarkdown_def)

text \<open>
  Claim C1. For every non-empty string, \<open>formatMarkdown\<close> resolves; and when
  \<open>prettier.format\<close> throws, it resolves with the input string itself, unchanged (after one
  \<open>console.error\<close>).
\<close>

theorem formatMarkdown_degrades_to_input:
  assumes "md \<noteq> []"
  shows "(\<exists>r. snd (formatMarkdown pf (JString md) ov) = Inr r) \<and>
         (\<forall>e. pf md (merge_options DEFAULT_PRETTIER_OPTIONS ov) = Inl e \<longrightarrow>
            formatMarkdown pf (JString md) ov =
              ([PrettierFormat md (merge_options DEFAULT_PRETTIER_OPTIONS ov),
                ConsoleError ''Prettier formatting failed:''], Inr md))"
  using assms by (auto simp: formatMarkdown_def Let_def split: sum.splits)

theorem formatMarkdown_degrades_to_input_witness:
  "snd (formatMarkdown prettier_failing (JString (ascii ''# Title'')) no_overrides)
     = Inr (ascii ''# Title'')"
proof -
  have ne: "ascii ''# Title'' \<noteq> []"
    by (simp add: ascii_def)
  have fails: "prettier_failing (ascii ''# Title'')
      (merge_options DEFAULT_PRETTIER_OPTIONS no_overrides) = Inl (Error ''SyntaxError'')"
    by (simp add: prettier_failing_def)
  from formatMarkdown_degrades_to_input [OF ne, of prettier_failing no_overrides] fails
  show ?thesis by simp
qed

section \<open>Properties of the input checks\<close>

lemma trim_empty_iff: "trim s = [] \<longleftrightarrow> (\<forall>c\<in>set s. is_whitespace c)"
proof
  assume "trim s = []"
  then have all: "\<forall>c\<in>set (dropWhile is_whitespace s). is_whitespace c"
    by (simp add: trim_def dropWhile_eq_Nil_conv)
  have "dropWhile is_whitespace s = []"
  proof (rule ccontr)
    assume ne: "dropWhile is_whitespace s \<noteq> []"
    then have "\<not> is_whitespace (hd (dropWhile is_whitespace s))"
      by (rule hd_dropWhile)
    moreover from ne have "hd (dropWhile is_whitespace s) \<in> set (dropWhile is_whitespace s)"
      by simp
    ultimately show False using all by blast
  qed
  then show "\<forall>c\<in>set s. is_whitespace c"
    by (simp add: dropWhile_eq_Nil_conv)
next
  assume "\<forall>c\<in>set s. is_whitespace c"
  then have d: "dropWhile is_whitespace s = []"
    by simp
  show "trim s = []"
    unfolding trim_def d by simp
qed

lemma tag_at_lt: "tag_at s \<Longrightarrow> 0x3C \<in> set s"
  by (auto simp: tag_at_def split: list.splits)

lemma htmlTagPattern_test_lt: "htmlTagPattern_test s \<Longrightarrow> 0x3C \<in> set s"
  by (induction s) (auto dest: tag_at_lt simp: tag_at_def)

lemma lt_not_whitespace: "\<not> is_whitespace 0x3C"
  by (simp add: is_whitespace_def)

lemma htmlTagPattern_test_trim: "htmlTagPattern_test s \<Longrightarrow> s \<noteq> [] \<and> trim s \<noteq> []"
  using htmlTagPattern_test_lt [of s] lt_not_whitespace
  by (auto simp: trim_empty_iff)

lemma convertHtmlToMarkdown_invalid:
  "\<not> to_boolean v \<or> typeof v \<noteq> ''string'' \<Longrightarrow> convertHtmlToMarkdown td v = ([], Inl invalid_html)"
  by (simp add: convertHtmlToMarkdown_def)

lemma convertHtmlToMarkdown_string:
  "h \<noteq> [] \<Longrightarrow> convertHtmlToMarkdown td (JString h) = ([TurndownCall h], td h)"
  by (simp add: convertHtmlToMarkdown_def)

lemma isValidHtml_string: "isValidHtml (JString s) = htmlTagPattern_test s"
  by (cases s) (simp_all add: isValidHtml_def tag_at_def)

text \<open>
  Claim C2, as the sources have it. \<open>convertHtmlToMarkdown\<close>, and with it the pipeline
  \<open>processHtmlToMarkdown\<close>, throws \<open>Invalid HTML input\<close> for every input that is missing,
  empty or not a string, before any call of the engine; it does not test the tag pattern,
  and hands every non-empty string to the engine. The pattern is tested by \<open>isValidHtml\<close>
  in \<open>handleConversion\<close>: for every string that is empty, only whitespace or without a
  match, \<open>handleConversion\<close> shows one error toast and does nothing else (no tree walk,
  no output). Every string with a match passes \<open>isValidHtml\<close>, and \<open>handleConversion\<close>
  goes on to the tree walk.
\<close>

theorem input_validation:
  "((\<not> to_boolean v \<or> typeof v \<noteq> ''string'') \<longrightarrow>
      convertHtmlToMarkdown td v = ([], Inl invalid_html) \<and>
      processHtmlToMarkdown td pf v = ([], Inl invalid_html) \<and>
      \<not> isValidHtml v) \<and>
   (s \<noteq> [] \<longrightarrow> convertHtmlToMarkdown td (JString s) = ([TurndownCall s], td s)) \<and>
   ((trim s = [] \<or> \<not> htmlTagPattern_test s) \<longrightarrow>
      handleConversion td pf s = [ShowToast ''No HTML content to convert'' ''error''] \<or>
      handleConversion td pf s =
        [ShowToast ''Input does not appear to contain valid HTML'' ''error'']) \<and>
   (htmlTagPattern_test s \<longrightarrow>
      isValidHtml (JString s) \<and>
      (\<exists>rest. handleConversion td pf s = SetProcessingState True # TurndownCall s # rest))"
proof (intro conjI impI)
  assume g: "\<not> to_boolean v \<or> typeof v \<noteq> ''string''"
  then show c: "convertHtmlToMarkdown td v = ([], Inl invalid_html)"
    by (rule convertHtmlToMarkdown_invalid)
  then show "processHtmlToMarkdown td pf v = ([], Inl invalid_html)"
    by (simp add: processHtmlToMarkdown_def)
  from g show "\<not> isValidHtml v"
    by (simp add: isValidHtml_def)
next
  assume "s \<noteq> []"
  then show "convertHtmlToMarkdown td (JString s) = ([TurndownCall s], td s)"
    by (rule convertHtmlToMarkdown_string)
next
  assume "trim s = [] \<or> \<not> htmlTagPattern_test s"
  then show "handleConversion td pf s = [ShowToast ''No HTML content to convert'' ''error''] \<or>
      handleConversion td pf s =
        [ShowToast ''Input does not appear to contain valid HTML'' ''error'']"
    by (auto simp: handleConversion_def isValidHtml_string)
next
  assume t: "htmlTagPattern_test s"
  then show "isValidHtml (JString s)"
    by (simp add: isValidHtml_string)
  from t have ne: "s \<noteq> []" "trim s \<noteq> []"
    using htmlTagPattern_test_trim by blast+
  show "\<exists>rest. handleConversion td pf s = SetProcessingState True # TurndownCall s # rest"
    using t ne
    by (auto simp: handleConversion_def isValidHtml_string processHtmlToMarkdown_def
        convertHtmlToMarkdown_string split: prod.splits sum.splits)
qed

theorem input_validation_witness:
  "processHtmlToMarkdown turndown_sample prettier_sample JUndefined = ([], Inl invalid_html) \<and>
   convertHtmlToMarkdown turndown_sample (JString (ascii ''<p>Hello</p>'')) =
     ([TurndownCall (ascii ''<p>Hello</p>'')], turndown_sample (ascii ''<p>Hello</p>'')) \<and>
   isValidHtml (JString (ascii ''<p>Hello</p>'')) \<and>
   (\<exists>rest. handleConversion turndown_sample prettier_sample (ascii ''<p>Hello</p>'') =
      SetProcessingState True # TurndownCall (ascii ''<p>Hello</p>'') # rest) \<and>
   handleConversion turndown_sample prettier_sample (ascii ''not html at all'') =
     [ShowToast ''Input does not appear to contain valid HTML'' ''error'']"
proof -
  have g: "\<not> to_boolean JUndefined \<or> typeof JUndefined \<noteq> ''string''"
    by simp
  have ne: "ascii ''<p>Hello</p>'' \<noteq> []"
    by (simp add: ascii_def)
  have t: "htmlTagPattern_test (ascii ''<p>Hello</p>'')"
    by code_simp
  have n: "\<not> htmlTagPattern_test (ascii ''not html at all'')"
    by code_simp
  have d: "handleConversion turndown_sample prettier_sample (ascii ''not html at all'') \<noteq>
      [ShowToast ''No HTML content to convert'' ''error'']"
    by code_simp
  from input_validation [of JUndefined turndown_sample prettier_sample "ascii ''<p>Hello</p>''"]
    g ne t
  have a: "processHtmlToMarkdown turndown_sample prettier_sample JUndefined = ([], Inl invalid_html) \<and>
   convertHtmlToMarkdown turndown_sample (JString (ascii ''<p>Hello</p>'')) =
     ([TurndownCall (ascii ''<p>Hello</p>'')], turndown_sample (ascii ''<p>Hello</p>'')) \<and>
   isValidHtml (JString (ascii ''<p>Hello</p>'')) \<and>
   (\<exists>rest. handleConversion turndown_sample prettier_sample (ascii ''<p>Hello</p>'') =
      SetProcessingState True # TurndownCall (ascii ''<p>Hello</p>'') # rest)"
    by blast
  from input_validation [of JUndefined turndown_sample prettier_sample "ascii ''not html at all''"]
    n d
  have b: "handleConversion turndown_sample prettier_sample (ascii ''not html at all'') =
     [ShowToast ''Input does not appear to contain valid HTML'' ''error'']"
    by blast
  from a b show ?thesis by blast
qed

text \<open>
  Claim C2 as it is written fails at the spec's own example: \<open>not html at all\<close> has no tag,
  yet the pipeline walks it and resolves with output.
\<close>

theorem pipeline_accepts_tagless_text:
  "\<not> isValidHtml (JString (ascii ''not html at all'')) \<and>
   processHtmlToMarkdown turndown_sample prettier_sample (JString (ascii ''not html at all'')) =
     ([TurndownCall (ascii ''not html at all''),
       PrettierFormat (ascii ''not html at all'') DEFAULT_PRETTIER_OPTIONS],
      Inr (ascii ''not html at all'' @ nl))"
  by code_simp

section \<open>Outcomes of the pipeline\<close>

lemma processHtmlToMarkdown_string:
  assumes "h \<noteq> []"
  shows "snd (processHtmlToMarkdown td pf (JString h)) =
     (case td h of
        Inl e \<Rightarrow> Inl e
      | Inr raw \<Rightarrow>
          if raw = [] then Inl invalid_markdown
          else (case pf raw (merge_options DEFAULT_PRETTIER_OPTIONS no_overrides) of
                  Inr formatted \<Rightarrow> Inr formatted
                | Inl e \<Rightarrow> Inr raw))"
proof (cases "td h")
  case (Inl e)
  with assms show ?thesis
    by (simp add: processHtmlToMarkdown_def convertHtmlToMarkdown_string)
next
  case (Inr raw)
  show ?thesis
  proof (cases "raw = []")
    case True
    with Inr assms show ?thesis
      by (simp add: processHtmlToMarkdown_def convertHtmlToMarkdown_string formatMarkdown_empty)
  next
    case False
    with Inr assms formatMarkdown_string [OF False, of pf no_overrides] show ?thesis
      by (cases "formatMarkdown pf (JString raw) no_overrides")
         (simp add: processHtmlToMarkdown_def convertHtmlToMarkdown_string)
  qed
qed

text \<open>
  Claim C3, as the sources have it. \<open>processHtmlToMarkdown\<close> has no \<open>catch\<close> of its own.
  For every non-empty string: when the engine throws, the pipeline rejects with that
  error; when the tree walk yields the empty string, it rejects with \<open>formatMarkdown\<close>'s
  \<open>Invalid markdown input\<close>; when the walk yields non-empty Markdown, it resolves with
  Prettier's output or, where Prettier fails, with the raw Markdown. A rejection for an
  input that passed \<open>isValidHtml\<close> is caught by \<open>handleConversion\<close>, which reports
  \<open>Conversion failed\<close> and writes no output.
\<close>

theorem pipeline_outcomes:
  assumes "h \<noteq> []"
  shows "snd (processHtmlToMarkdown td pf (JString h)) =
     (case td h of
        Inl e \<Rightarrow> Inl e
      | Inr raw \<Rightarrow>
          if raw = [] then Inl invalid_markdown
          else (case pf raw (merge_options DEFAULT_PRETTIER_OPTIONS no_overrides) of
                  Inr formatted \<Rightarrow> Inr formatted
                | Inl e \<Rightarrow> Inr raw)) \<and>
    (\<forall>e. htmlTagPattern_test h \<and> snd (processHtmlToMarkdown td pf (JString h)) = Inl e \<longrightarrow>
       handleConversion td pf h =
         [SetProcessingState True] @ fst (processHtmlToMarkdown td pf (JString h)) @
         [ConsoleError ''Conversion error:'', UpdateStatus ''Conversion failed'' ''error'',
          ShowToast (''Error: '' @ message e) ''error'', SetProcessingState False])"
proof (intro conjI allI impI)
  show "snd (processHtmlToMarkdown td pf (JString h)) =
     (case td h of
        Inl e \<Rightarrow> Inl e
      | Inr raw \<Rightarrow>
          if raw = [] then Inl invalid_markdown
          else (case pf raw (merge_options DEFAULT_PRETTIER_OPTIONS no_overrides) of
                  Inr formatted \<Rightarrow> Inr formatted
                | Inl e \<Rightarrow> Inr raw))"
    using assms by (rule processHtmlToMarkdown_string)
next
  fix e
  assume a: "htmlTagPattern_test h \<and> snd (processHtmlToMarkdown td pf (JString h)) = Inl e"
  then have "trim h \<noteq> []"
    using htmlTagPattern_test_trim by blast
  with a assms show "handleConversion td pf h =
         [SetProcessingState True] @ fst (processHtmlToMarkdown td pf (JString h)) @
         [ConsoleError ''Conversion error:'', UpdateStatus ''Conversion failed'' ''error'',
          ShowToast (''Error: '' @ message e) ''error'', SetProcessingState False]"
    by (cases "processHtmlToMarkdown td pf (JString h)")
       (simp add: handleConversion_def isValidHtml_string)
qed

text \<open>
  Claim C3 as it is written fails for an input that passes validation and converts to
  nothing: the pipeline rejects.
\<close>

theorem pipeline_rejects_empty_markdown:
  "isValidHtml (JString (ascii ''<script>alert(1)</script>'')) \<and>
   processHtmlToMarkdown turndown_sample prettier_sample
       (JString (ascii ''<script>alert(1)</script>'')) =
     ([TurndownCall (ascii ''<script>alert(1)</script>'')], Inl invalid_markdown)"
  by code_simp

theorem pipeline_outcomes_witness:
  "snd (processHtmlToMarkdown turndown_sample prettier_sample (JString (ascii ''<p>Hello</p>'')))
     = Inr (ascii ''Hello'' @ nl) \<and>
   handleConversion turndown_sample prettier_sample (ascii ''<script>alert(1)</script>'') =
     [SetProcessingState True, TurndownCall (ascii ''<script>alert(1)</script>''),
      ConsoleError ''Conversion error:'', UpdateStatus ''Conversion failed'' ''error'',
      ShowToast ''Error: Invalid markdown input: expected a non-empty string'' ''error'',
      SetProcessingState False]"
proof -
  have ne1: "ascii ''<p>Hello</p>'' \<noteq> []" and ne2: "ascii ''<script>alert(1)</script>'' \<noteq> []"
    by (simp_all add: ascii_def)
  have t: "htmlTagPattern_test (ascii ''<script>alert(1)</script>'')"
    by code_simp
  have td1: "turndown_sample (ascii ''<p>Hello</p>'') = Inr (ascii ''Hello'')"
    by code_simp
  have td2: "turndown_sample (ascii ''<script>alert(1)</script>'') = Inr []"
    by code_simp
  have pf1: "prettier_sample (ascii ''Hello'') (merge_options DEFAULT_PRETTIER_OPTIONS no_overrides)
      = Inr (ascii ''Hello'' @ nl)"
    by code_simp
  have hne: "ascii ''Hello'' \<noteq> []"
    by (simp add: ascii_def)
  have f: "fst (processHtmlToMarkdown turndown_sample prettier_sample
       (JString (ascii ''<script>alert(1)</script>''))) = [TurndownCall (ascii ''<script>alert(1)</script>'')]"
    by code_simp
  from pipeline_outcomes [OF ne1, of turndown_sample prettier_sample] td1 pf1 hne
  have a: "snd (processHtmlToMarkdown turndown_sample prettier_sample (JString (ascii ''<p>Hello</p>'')))
     = Inr (ascii ''Hello'' @ nl)"
    by simp
  from pipeline_outcomes [OF ne2, of turndown_sample prettier_sample] td2 t f
  have b: "handleConversion turndown_sample prettier_sample (ascii ''<script>alert(1)</script>'') =
     [SetProcessingState True, TurndownCall (ascii ''<script>alert(1)</script>''),
      ConsoleError ''Conversion error:'', UpdateStatus ''Conversion failed'' ''error'',
      ShowToast ''Error: Invalid markdown input: expected a non-empty string'' ''error'',
      SetProcessingState False]"
    by (simp add: invalid_markdown_def)
  from a b show ?thesis by simp
qed

section \<open>Idempotence of formatMarkdown\<close>





section \<open>The rules for code\<close>

text \<open>
  The matcher \<open>language_match\<close> against the pattern's meaning: a result \<open>w\<close> is a longest
  non-empty run of word characters right after one of the two literals somewhere in the
  string, and \<open>None\<close> means that no literal in the string is followed by a word character.
\<close>

lemma capture_after_Some:
  assumes "capture_after lit s = Some w"
  shows "\<exists>post. s = lit @ w @ post \<and> w \<noteq> [] \<and> (\<forall>c\<in>set w. is_word_char c) \<and>
           (post = [] \<or> \<not> is_word_char (hd post))"
proof -
  from assms have p: "prefix lit s"
    and w: "w = takeWhile is_word_char (drop (length lit) s)" and ne: "w \<noteq> []"
    by (auto simp: capture_after_def split: if_splits)
  from p obtain r where s: "s = lit @ r"
    by (auto simp: prefix_def)
  with w have w': "w = takeWhile is_word_char r"
    by simp
  have "r = w @ dropWhile is_word_char r"
    by (simp add: w')
  moreover have "\<forall>c\<in>set w. is_word_char c"
    using w' by (auto dest: set_takeWhileD)
  moreover have "dropWhile is_word_char r = [] \<or> \<not> is_word_char (hd (dropWhile is_word_char r))"
    using hd_dropWhile [of is_word_char r] by blast
  ultimately show ?thesis
    using s ne by metis
qed

lemma capture_at_Some:
  assumes "capture_at s = Some w"
  shows "\<exists>lit post. s = lit @ w @ post \<and> (lit = ascii ''language-'' \<or> lit = ascii ''lang-'') \<and>
           w \<noteq> [] \<and> (\<forall>c\<in>set w. is_word_char c) \<and> (post = [] \<or> \<not> is_word_char (hd post))"
proof (cases "capture_after (ascii ''language-'') s")
  case None
  with assms have "capture_after (ascii ''lang-'') s = Some w"
    by (simp add: capture_at_def)
  from capture_after_Some [OF this] show ?thesis by blast
next
  case (Some v)
  with assms have "capture_after (ascii ''language-'') s = Some w"
    by (simp add: capture_at_def)
  from capture_after_Some [OF this] show ?thesis by blast
qed

lemma language_match_Some:
  "language_match s = Some w \<Longrightarrow>
   \<exists>pre lit post. s = pre @ lit @ w @ post \<and> (lit = ascii ''language-'' \<or> lit = ascii ''lang-'') \<and>
      w \<noteq> [] \<and> (\<forall>c\<in>set w. is_word_char c) \<and> (post = [] \<or> \<not> is_word_char (hd post))"
proof (induction s)
  case Nil
  then have "capture_at [] = Some w" by simp
  from capture_at_Some [OF this] show ?case
    by (metis append_Nil)
next
  case (Cons c cs)
  show ?case
  proof (cases "capture_at (c # cs)")
    case None
    with Cons.prems have "language_match cs = Some w" by simp
    from Cons.IH [OF this] obtain pre lit post where
      "cs = pre @ lit @ w @ post" "lit = ascii ''language-'' \<or> lit = ascii ''lang-''"
      "w \<noteq> []" "\<forall>c\<in>set w. is_word_char c" "post = [] \<or> \<not> is_word_char (hd post)"
      by blast
    then have "c # cs = (c # pre) @ lit @ w @ post" by simp
    with \<open>lit = ascii ''language-'' \<or> lit = ascii ''lang-''\<close> \<open>w \<noteq> []\<close>
      \<open>\<forall>c\<in>set w. is_word_char c\<close> \<open>post = [] \<or> \<not> is_word_char (hd post)\<close>
    show ?thesis by blast
  next
    case (Some v)
    with Cons.prems have "capture_at (c # cs) = Some w" by simp
    from capture_at_Some [OF this] show ?thesis
      by (metis append_Nil)
  qed
qed

lemma capture_after_literal:
  "is_word_char c \<Longrightarrow> capture_after lit (lit @ c # post) \<noteq> None"
  by (simp add: capture_after_def)

lemma capture_at_literal:
  assumes "lit = ascii ''language-'' \<or> lit = ascii ''lang-''" and "is_word_char c"
  shows "capture_at (lit @ c # post) \<noteq> None"
  using assms capture_after_literal [of c lit post]
  by (auto simp: capture_at_def split: option.splits)

lemma language_match_append:
  "language_match (pre @ t) = None \<Longrightarrow> capture_at t = None"
proof (induction pre)
  case Nil
  then show ?case by (cases t) (auto split: option.splits)
next
  case (Cons a pre)
  then show ?case by (auto split: option.splits)
qed

lemma language_match_leftmost:
  "\<forall>k<length pre. capture_at (drop k (pre @ t)) = None \<Longrightarrow>
   language_match (pre @ t) = (case t of [] \<Rightarrow> None | c # cs \<Rightarrow> language_match t)"
proof (induction pre)
  case Nil
  then show ?case
    by (cases t) (simp_all add: capture_at_def capture_after_def ascii_def)
next
  case (Cons a pre)
  from Cons.prems have "capture_at (a # pre @ t) = None"
    by auto
  moreover from Cons.prems have "\<forall>k<length pre. capture_at (drop k (pre @ t)) = None"
    by fastforce
  ultimately show ?case
    using Cons.IH by simp
qed

lemma language_match_None:
  assumes "language_match s = None"
    and "lit = ascii ''language-'' \<or> lit = ascii ''lang-''" and "is_word_char c"
  shows "s \<noteq> pre @ lit @ c # post"
proof
  assume "s = pre @ lit @ c # post"
  with assms(1) have "capture_at (lit @ c # post) = None"
    using language_match_append by blast
  with capture_at_literal [OF assms(2,3)] show False by blast
qed

lemma rule_filters:
  "preserveCodeBlocks_filter (Element ''pre'' attrs kids)"
  "inlineCode_filter parentNode (Element ''code'' attrs kids) = (nodeName parentNode \<noteq> ''PRE'')"
  by (simp_all add: preserveCodeBlocks_filter_def inlineCode_filter_def upcase_def)

lemma trim_decomposition:
  "\<exists>ws1 ws2. s = ws1 @ trim s @ ws2 \<and> list_all is_whitespace ws1 \<and> list_all is_whitespace ws2 \<and>
     (trim s = [] \<or> (\<not> is_whitespace (hd (trim s)) \<and> \<not> is_whitespace (last (trim s))))"
proof -
  let ?r = "dropWhile is_whitespace s"
  let ?ws1 = "takeWhile is_whitespace s"
  let ?ws2 = "rev (takeWhile is_whitespace (rev ?r))"
  have t: "trim s = rev (dropWhile is_whitespace (rev ?r))"
    by (simp add: trim_def)
  have r: "?r = trim s @ ?ws2"
    unfolding t by (metis rev_append rev_rev_ident takeWhile_dropWhile_id)
  have s: "s = ?ws1 @ trim s @ ?ws2"
    using r takeWhile_dropWhile_id [of is_whitespace s] by metis
  have w1: "list_all is_whitespace ?ws1"
    by (auto simp: list_all_iff dest: set_takeWhileD)
  have w2: "list_all is_whitespace ?ws2"
    by (auto simp: list_all_iff dest: set_takeWhileD)
  have e: "\<not> is_whitespace (hd (trim s)) \<and> \<not> is_whitespace (last (trim s))" if ne: "trim s \<noteq> []"
  proof
    from ne r have rne: "?r \<noteq> []"
      by (metis append_is_Nil_conv)
    then have "\<not> is_whitespace (hd ?r)"
      by (rule hd_dropWhile)
    moreover from r ne have "hd ?r = hd (trim s)"
      by (metis hd_append2)
    ultimately show "\<not> is_whitespace (hd (trim s))"
      by simp
    from ne have dne: "dropWhile is_whitespace (rev ?r) \<noteq> []"
      by (simp add: t)
    then have "\<not> is_whitespace (hd (dropWhile is_whitespace (rev ?r)))"
      by (rule hd_dropWhile)
    moreover from dne have "last (trim s) = hd (dropWhile is_whitespace (rev ?r))"
      by (simp add: t last_rev)
    ultimately show "\<not> is_whitespace (last (trim s))"
      by simp
  qed
  from s w1 w2 e show ?thesis by blast
qed

lemma preserveCodeBlocks_replacement_unfold:
  "preserveCodeBlocks_replacement content node =
     nl @ fence configured_options @
     (case language_match
             (className (case querySelector ''code'' node of Some c \<Rightarrow> c | None \<Rightarrow> node)) of
        Some lang \<Rightarrow> lang
      | None \<Rightarrow> []) @
     nl @
     trim (case querySelector ''code'' node of
             Some c \<Rightarrow> textContent c
           | None \<Rightarrow> textContent node) @
     nl @ fence configured_options @ nl"
  by (simp add: preserveCodeBlocks_replacement_def extractLanguageFromCode_def
      configured_options_def Let_def)

text \<open>
  Claim C4, as the sources have it. Take a \<open>pre\<close> element that the engine does not
  treat as blank and that has no \<open>script\<close>, \<open>style\<close> or \<open>noscript\<close> descendant. What is
  emitted for it is a fenced block: a newline, the configured fence token immediately
  followed by the info-string, a newline, the body, a newline, the fence token and a
  newline. The body is the text of the first nested \<open>code\<close> element if there is one, else
  the text of the \<open>pre\<close> element, trimmed: the text is the body between two runs of
  whitespace, and the body neither starts nor ends with whitespace. The info-string is
  capture 1 of the first match of \<open>(?:language-|lang-)(\w+)\<close> in the class attribute of
  that \<open>code\<close> element (of the \<open>pre\<close> element itself where none is nested), or the empty
  string when there is no match.
\<close>

theorem pre_emits_fenced_block:
  assumes "preserveCodeBlocks_filter node"
    and "\<not> isBlank node"
    and "\<not> has_removed_descendant node"
  shows "replacement_for_pre content node =
           nl @ fence configured_options @
           (case language_match
                   (className (case querySelector ''code'' node of Some c \<Rightarrow> c | None \<Rightarrow> node)) of
              Some lang \<Rightarrow> lang
            | None \<Rightarrow> []) @
           nl @
           trim (case querySelector ''code'' node of
                   Some c \<Rightarrow> textContent c
                 | None \<Rightarrow> textContent node) @
           nl @ fence configured_options @ nl \<and>
         (\<exists>ws1 ws2.
            (case querySelector ''code'' node of Some c \<Rightarrow> textContent c | None \<Rightarrow> textContent node) =
              ws1 @
              trim (case querySelector ''code'' node of
                      Some c \<Rightarrow> textContent c
                    | None \<Rightarrow> textContent node) @
              ws2 \<and>
            list_all is_whitespace ws1 \<and> list_all is_whitespace ws2) \<and>
         (trim (case querySelector ''code'' node of
                  Some c \<Rightarrow> textContent c
                | None \<Rightarrow> textContent node) = [] \<or>
          (\<not> is_whitespace
                (hd (trim (case querySelector ''code'' node of
                             Some c \<Rightarrow> textContent c
                           | None \<Rightarrow> textContent node))) \<and>
           \<not> is_whitespace
                (last (trim (case querySelector ''code'' node of
                               Some c \<Rightarrow> textContent c
                             | None \<Rightarrow> textContent node)))))"
proof -
  let ?src = "case querySelector ''code'' node of Some c \<Rightarrow> textContent c
    | None \<Rightarrow> textContent node"
  from assms(2) have "replacement_for_pre content node = preserveCodeBlocks_replacement content node"
    by (simp add: replacement_for_pre_def)
  with preserveCodeBlocks_replacement_unfold [of content node] trim_decomposition [of ?src]
  show ?thesis
    by auto
qed

theorem pre_emits_fenced_block_witness:
  "replacement_for_pre []
     (Element ''pre'' []
        [Text nl,
         Element ''span'' []
           [Element ''code'' [(''class'', ascii ''hljs language-python'')]
              [Text (ascii ''  print(\"hi\")'' @ nl)]],
         Element ''code'' [(''class'', ascii ''lang-js'')] [Text (ascii ''no'')]]) =
   nl @ ascii ''```python'' @ nl @ ascii ''print(\"hi\")'' @ nl @ ascii ''```'' @ nl"
proof -
  let ?code = "Element ''code'' [(''class'', ascii ''hljs language-python'')]
              [Text (ascii ''  print(\"hi\")'' @ nl)]"
  let ?pre = "Element ''pre'' []
        [Text nl, Element ''span'' [] [?code],
         Element ''code'' [(''class'', ascii ''lang-js'')] [Text (ascii ''no'')]]"
  have f: "preserveCodeBlocks_filter ?pre"
    by code_simp
  have nb: "\<not> isBlank ?pre"
    by code_simp
  have nr: "\<not> has_removed_descendant ?pre"
    by code_simp
  have q: "querySelector ''code'' ?pre = Some ?code"
    by (simp add: querySelector_def)
  have l: "language_match (ascii ''hljs language-python'') = Some (ascii ''python'')"
    by code_simp
  have t: "trim (ascii ''  print(\"hi\")'' @ nl) = ascii ''print(\"hi\")''"
    by code_simp
  have fc: "fence configured_options = ascii ''```''"
    by (simp add: configured_options_def)
  from pre_emits_fenced_block [OF f nb nr, of "[]"] q l t fc
  show ?thesis
    by (simp add: ascii_def)
qed

text \<open>
  Claim C4 as it is written fails for a \<open>pre\<close> element that holds only a space: the
  engine treats it as blank and never calls the rule, so no fence is emitted.
\<close>

theorem blank_pre_emits_no_fence:
  "preserveCodeBlocks_filter (Element ''pre'' [] [Text (ascii '' '')]) \<and>
   isBlank (Element ''pre'' [] [Text (ascii '' '')]) \<and>
   replacement_for_pre [] (Element ''pre'' [] [Text (ascii '' '')]) = nl @ nl \<and>
   replacement_for_pre [] (Element ''pre'' [] [Text (ascii '' '')]) \<noteq>
     nl @ fence configured_options @ nl @ nl @ fence configured_options @ nl"
  by code_simp

text \<open>
  Claim C10. When a \<open>pre\<close> element has no nested \<open>code\<close> element, the info-string is read
  from the class attribute of the \<open>pre\<close> element itself; the witness is
  \<open><pre class="language-js">x</pre>\<close>, emitted with info-string \<open>js\<close>.
\<close>

theorem pre_without_code_reads_own_class:
  assumes "querySelector ''code'' node = None"
  shows "extractLanguageFromCode node =
           (case language_match (className node) of Some lang \<Rightarrow> lang | None \<Rightarrow> []) \<and>
         preserveCodeBlocks_replacement content node =
           nl @ ascii ''```'' @ extractLanguageFromCode node @ nl @ trim (textContent node) @ nl @
           ascii ''```'' @ nl"
  using assms
  by (simp add: preserveCodeBlocks_replacement_def extractLanguageFromCode_def Let_def)

theorem pre_without_code_reads_own_class_witness:
  "preserveCodeBlocks_replacement []
     (Element ''pre'' [(''class'', ascii ''language-js'')] [Text (ascii ''x'')]) =
   nl @ ascii ''```'' @ ascii ''js'' @ nl @ ascii ''x'' @ nl @ ascii ''```'' @ nl"
proof -
  let ?pre = "Element ''pre'' [(''class'', ascii ''language-js'')] [Text (ascii ''x'')]"
  have q: "querySelector ''code'' ?pre = None"
    by (simp add: querySelector_def)
  have l: "language_match (ascii ''language-js'') = Some (ascii ''js'')"
    by code_simp
  have t: "trim (ascii ''x'') = ascii ''x''"
    by code_simp
  from pre_without_code_reads_own_class [OF q, of "[]"] l t
  show ?thesis by simp
qed

text \<open>
  Claim C5, as the sources have it. The rule for a \<open>code\<close> element whose parent is not a
  \<open>pre\<close> element emits the empty string for content that is empty or only whitespace,
  the content between double backticks with one space of padding on each side when it
  contains a backtick, and the content between single backticks with no padding otherwise.
\<close>

theorem inlineCode_cases:
  "inlineCode_replacement content =
     (if \<forall>c\<in>set content. is_whitespace c then []
      else if 0x60 \<in> set content then ascii ''`` '' @ content @ ascii '' ``''
      else ascii ''`'' @ content @ ascii ''`'')"
  by (simp add: inlineCode_replacement_def trim_empty_iff)

theorem inlineCode_cases_witness:
  "inlineCode_replacement [] = [] \<and>
   inlineCode_replacement (ascii ''a`b'') = ascii ''`` a`b ``'' \<and>
   inlineCode_replacement (ascii ''ab'') = ascii ''`ab`''"
proof -
  have w: "\<not> (\<forall>c\<in>set (ascii ''a`b''). is_whitespace c)" "\<not> (\<forall>c\<in>set (ascii ''ab''). is_whitespace c)"
    by (simp_all add: ascii_def is_whitespace_def)
  have b: "0x60 \<in> set (ascii ''a`b'')" "0x60 \<notin> set (ascii ''ab'')"
    by (simp_all add: ascii_def)
  from inlineCode_cases [of "[]"] inlineCode_cases [of "ascii ''a`b''"]
    inlineCode_cases [of "ascii ''ab''"] w b
  show ?thesis by (simp add: ascii_def)
qed

text \<open>
  Claim C5 as it is written fails for a single space: the content is not empty and has no
  backtick, yet nothing is emitted instead of the space between single backticks.
\<close>

theorem inlineCode_blank_content:
  "ascii '' '' \<noteq> [] \<and> 0x60 \<notin> set (ascii '' '') \<and>
   inlineCode_replacement (ascii '' '') = [] \<and>
   inlineCode_replacement (ascii '' '') \<noteq> ascii ''`'' @ ascii '' '' @ ascii ''`''"
  by code_simp

text \<open>
  Claim C9. Content that consists only of whitespace is emitted as the empty string, like
  empty content; any other content stands between the delimiters exactly as it came,
  untrimmed.
\<close>

theorem inlineCode_whitespace_and_verbatim:
  "((\<forall>c\<in>set content. is_whitespace c) \<longrightarrow> inlineCode_replacement content = []) \<and>
   (\<not> (\<forall>c\<in>set content. is_whitespace c) \<longrightarrow>
      inlineCode_replacement content = ascii ''`` '' @ content @ ascii '' ``'' \<or>
      inlineCode_replacement content = ascii ''`'' @ content @ ascii ''`'')"
  by (simp add: inlineCode_replacement_def trim_empty_iff)

theorem inlineCode_whitespace_and_verbatim_witness:
  "inlineCode_replacement (ascii '' '' @ nl) = [] \<and>
   inlineCode_replacement (ascii '' ab '') = ascii ''`'' @ ascii '' ab '' @ ascii ''`''"
proof -
  have w: "\<forall>c\<in>set (ascii '' '' @ nl). is_whitespace c" "\<not> (\<forall>c\<in>set (ascii '' ab ''). is_whitespace c)"
    by (simp_all add: ascii_def nl_def is_whitespace_def)
  have d: "inlineCode_replacement (ascii '' ab '') \<noteq> ascii ''`` '' @ ascii '' ab '' @ ascii '' ``''"
    by code_simp
  from inlineCode_whitespace_and_verbatim [of "ascii '' '' @ nl"]
    inlineCode_whitespace_and_verbatim [of "ascii '' ab ''"] w d
  show ?thesis by blast
qed

text \<open>
  Claim C6 at \<open><pre><script>alert(1)</script></pre>\<close>: the rule for \<open>pre\<close> applies, and it
  reads \<open>textContent\<close>, which holds the text of the nested \<open>script\<close> element. The text of
  the removed element is emitted inside the fence.
\<close>

theorem pre_emits_script_text:
  "preserveCodeBlocks_filter (Element ''pre'' [] [Element ''script'' [] [Text (ascii ''alert(1)'')]]) \<and>
   preserveCodeBlocks_replacement []
     (Element ''pre'' [] [Element ''script'' [] [Text (ascii ''alert(1)'')]]) =
   nl @ ascii ''```'' @ nl @ ascii ''alert(1)'' @ nl @ ascii ''```'' @ nl"
  by code_simp

section \<open>Copying to the clipboard\<close>

lemma fallback_copy_starts:
  "\<exists>ev. fst (fallback_copy b text) = CreateTextarea # ev"
  by (simp add: fallback_copy_def split: option.splits sum.splits)

text \<open>
  Claim C8. \<open>copyToClipboard\<close> always resolves, and its first call is the Clipboard API's
  \<open>writeText\<close>. When that succeeds nothing else happens and the result is \<open>true\<close>. When it
  fails, the failure is logged and the fallback (a hidden textarea and \<open>execCommand\<close>)
  is attempted before any result is reported. The result is \<open>false\<close> exactly when the
  first call failed and a call of the fallback threw as well.
\<close>

theorem copyToClipboard_fallback:
  "(\<exists>ev r. copyToClipboard b text = (ClipboardWriteText text # ev, Inr r)) \<and>
   (clipboard_writeText b text = None \<longrightarrow>
      copyToClipboard b text = ([ClipboardWriteText text], Inr True)) \<and>
   (clipboard_writeText b text \<noteq> None \<longrightarrow>
      (\<exists>ev. fst (copyToClipboard b text) =
         ClipboardWriteText text # ConsoleError ''Failed to copy to clipboard:'' #
         CreateTextarea # ev)) \<and>
   ((snd (copyToClipboard b text) = Inr False) =
      (clipboard_writeText b text \<noteq> None \<and> (\<exists>e. snd (fallback_copy b text) = Inl e)))"
proof (cases "clipboard_writeText b text")
  case None
  then show ?thesis
    by (auto simp: copyToClipboard_def)
next
  case (Some error)
  obtain ev r where f: "fallback_copy b text = (ev, r)"
    by (cases "fallback_copy b text")
  from fallback_copy_starts [of b "text"] f obtain ev' where ev: "ev = CreateTextarea # ev'"
    by auto
  show ?thesis
  proof (cases r)
    case (Inl e)
    with Some f ev show ?thesis
      by (auto simp: copyToClipboard_def)
  next
    case (Inr u)
    with Some f ev show ?thesis
      by (auto simp: copyToClipboard_def)
  qed
qed

theorem copyToClipboard_fallback_witness:
  "copyToClipboard legacy_browser (ascii ''# Title'') =
     ([ClipboardWriteText (ascii ''# Title''), ConsoleError ''Failed to copy to clipboard:'',
       CreateTextarea, AppendTextarea (ascii ''# Title''), SelectTextarea, ExecCommandCopy,
       RemoveTextarea], Inr True) \<and>
   snd (copyToClipboard broken_browser (ascii ''# Title'')) = Inr False"
proof -
  have a: "copyToClipboard legacy_browser (ascii ''# Title'') =
     ([ClipboardWriteText (ascii ''# Title''), ConsoleError ''Failed to copy to clipboard:'',
       CreateTextarea, AppendTextarea (ascii ''# Title''), SelectTextarea, ExecCommandCopy,
       RemoveTextarea], Inr True)"
    by (simp add: copyToClipboard_def fallback_copy_def legacy_browser_def)
  have w: "clipboard_writeText broken_browser (ascii ''# Title'') \<noteq> None"
    by (simp add: broken_browser_def)
  have f: "snd (fallback_copy broken_browser (ascii ''# Title'')) = Inl (Error ''document.body is null'')"
    by (simp add: fallback_copy_def broken_browser_def)
  from copyToClipboard_fallback [of broken_browser "ascii ''# Title''"] w f
  have b: "snd (copyToClipboard broken_browser (ascii ''# Title'')) = Inr False"
    by blast
  from a b show ?thesis by simp
qed

end
